theory Spec2Isabelle
  imports Complex_Main
begin

section \<open>The liveness checker's per-frame decision logic\<close>

text \<open>
  The embedding follows the later revision of the component \<open>LivenessChecker\<close>
  (the one with blink hysteresis, a refractory period and the two flags
  \<open>turnedLeft\<close> / \<open>turnedRight\<close>).  JavaScript numbers are modelled as real
  numbers, so rounding of binary floating point is outside the model.  The camera,
  the canvas, the script loader and the console are not modelled; every ref and
  every \<open>useState\<close> variable that the decision logic reads or writes is.
\<close>

subsection \<open>Data\<close>

datatype direction = Left | Right

text \<open>The props of the component, with the defaults of its parameter list.\<close>

record props =
  sessionWindowMs :: real
  earThreshold :: real
  earCloseMinMs :: real
  yawAbsThreshold :: real
  yawHoldMinMs :: real

definition defaultProps :: props where
  "defaultProps =
     \<lparr>sessionWindowMs = 8000, earThreshold = 18 / 100, earCloseMinMs = 120,
      yawAbsThreshold = 55 / 100, yawHoldMinMs = 250\<rparr>"

text \<open>
  The \<open>useState\<close> variables that \<open>onResults\<close> reads.  A callback created by a
  render reads the values of that render, not the committed ones, so the values a
  callback instance closes over are an argument of its own (type \<open>captured\<close>).
  The session extends this record with the remaining state variables and the refs,
  which are shared by all instances.
\<close>

record captured =
  blinkCount :: nat
  turnDetected :: "direction option"
  livenessPassed :: bool
  turnedLeft :: bool
  turnedRight :: bool

record session = captured +
  leftEAR :: real
  rightEAR :: real
  yawDev :: real
  startedAtRef :: "real option"
  earLeftEMARef :: "real option"
  earRightEMARef :: "real option"
  eyesClosedSinceRef :: "real option"
  eyesWereClosedRef :: bool
  lastBlinkAtRef :: real
  yawEMARef :: "real option"
  yawBeyondSinceRef :: "real option"
  frameCountRef :: nat
  lastFacePresentRef :: bool
  blinkCountRef :: nat

text \<open>
  What one call of \<open>onResults\<close> is handed.  \<open>results.multiFaceLandmarks?.[0]\<close> is
  either absent (\<open>NoFace\<close>) or a landmark array.  The extractors
  \<open>earFromLandmarks\<close> and \<open>yawProxy\<close> live in \<open>lib/geometry\<close>, which is not among
  the sources, so the outcome of each of the three calls is part of the frame: the
  call returns a number or throws.  \<open>now\<close> is the reading of \<open>performance.now()\<close>
  taken in the call.
\<close>

datatype extraction = Throws | Returns real

datatype frame =
    NoFace
  | Face (earLeft: extraction) (earRight: extraction) (yawRaw: extraction) (now: real)

subsection \<open>Helpers\<close>

text \<open>
  Modelled from the spec: \<open>ema\<close> is imported from \<open>lib/geometry\<close>, which is not
  among the sources.  The spec's contract for the smoother: with no previous value
  the sample is returned unchanged, otherwise
  \<open>alpha * sample + (1 - alpha) * previous\<close>.
\<close>

definition ema :: "real option \<Rightarrow> real \<Rightarrow> real \<Rightarrow> real" where
  "ema previous sample alpha =
     (case previous of
        None \<Rightarrow> sample
      | Some prev \<Rightarrow> alpha * sample + (1 - alpha) * prev)"

text \<open>\<open>Number(x.toFixed(3))\<close>: three decimals, a tie rounded away from zero.\<close>

definition toFixed3 :: "real \<Rightarrow> real" where
  "toFixed3 x =
     (if x < 0 then - (of_int \<lfloor>- x * 1000 + 1 / 2\<rfloor> / 1000)
      else of_int \<lfloor>x * 1000 + 1 / 2\<rfloor> / 1000)"

definition updateDebug :: "real \<Rightarrow> real \<Rightarrow> real \<Rightarrow> session \<Rightarrow> session" where
  "updateDebug lEAR rEAR yw s =
     s\<lparr>leftEAR := toFixed3 lEAR, rightEAR := toFixed3 rEAR, yawDev := toFixed3 yw\<rparr>"

text \<open>
  The local constants of \<open>onResults\<close>: \<open>closeTh = earThreshold\<close>,
  \<open>openTh = earThreshold + 0.03\<close> and \<open>refractoryMs = 250\<close>.
\<close>

definition closeTh :: "props \<Rightarrow> real" where
  "closeTh p = earThreshold p"

definition openTh :: "props \<Rightarrow> real" where
  "openTh p = earThreshold p + 3 / 100"

definition refractoryMs :: real where
  "refractoryMs = 250"

subsection \<open>The callback \<open>onResults\<close>\<close>

text \<open>
  The blink section of \<open>onResults\<close> (hysteresis, minimum duration, refractory
  period).  It returns the session and the local \<open>nextBlinkCount\<close>.  The state
  setters only queue an update and nothing in the call reads the committed state,
  so each \<open>setX(v)\<close> is applied to the session at once.
\<close>

definition blinkSection :: "props \<Rightarrow> captured \<Rightarrow> real \<Rightarrow> real \<Rightarrow> session \<Rightarrow> session \<times> nat" where
  "blinkSection p c earAvg t s =
     (let eyesClosed = (if eyesWereClosedRef s then earAvg < openTh p else earAvg < closeTh p);
          nextBlinkCount = blinkCount c
      in if eyesClosed then
           (if \<not> eyesWereClosedRef s
            then (s\<lparr>eyesWereClosedRef := True, eyesClosedSinceRef := Some t\<rparr>, nextBlinkCount)
            else (s, nextBlinkCount))
         else if eyesWereClosedRef s then
           (let closedMs = t - (case eyesClosedSinceRef s of None \<Rightarrow> t | Some t0 \<Rightarrow> t0);
                s1 = s\<lparr>eyesWereClosedRef := False, eyesClosedSinceRef := None\<rparr>
            in if closedMs \<ge> earCloseMinMs p then
                 (if t - lastBlinkAtRef s1 \<ge> refractoryMs then
                    (let newCount = blinkCountRef s1 + 1
                     in (s1\<lparr>blinkCount := newCount, blinkCountRef := newCount,
                             lastBlinkAtRef := t\<rparr>, newCount))
                  else (s1, nextBlinkCount))
               else (s1, nextBlinkCount))
         else (s, nextBlinkCount))"

text \<open>
  The turn section.  \<open>!yawBeyondSinceRef.current\<close> holds for \<open>null\<close> and also for
  the number 0.  The tests \<open>!turnDetected\<close>, \<open>turnedLeft\<close>, \<open>turnedRight\<close> and
  \<open>!livenessPassed\<close> read the values the callback closes over.
\<close>

definition turnSection :: "props \<Rightarrow> captured \<Rightarrow> real \<Rightarrow> real \<Rightarrow> nat \<Rightarrow> session \<Rightarrow> session" where
  "turnSection p c yawSm t nextBlinkCount s =
     (let beyond = (\<bar>yawSm\<bar> \<ge> yawAbsThreshold p);
          restart = s\<lparr>yawBeyondSinceRef := Some t\<rparr>
      in if beyond then
           (case yawBeyondSinceRef s of
              None \<Rightarrow> restart
            | Some since \<Rightarrow>
                if since = 0 then restart
                else
                  (let held = t - since
                   in if held \<ge> yawHoldMinMs p then
                        (let dir = (if yawSm > 0 then Right else Left);
                             s1 = (if turnDetected c = None then s\<lparr>turnDetected := Some dir\<rparr> else s);
                             s2 = (if dir = Left then s1\<lparr>turnedLeft := True\<rparr> else s1);
                             s3 = (if dir = Right then s2\<lparr>turnedRight := True\<rparr> else s2);
                             nextLeft = (if dir = Left then True else turnedLeft c);
                             nextRight = (if dir = Right then True else turnedRight c)
                         in if \<not> livenessPassed c \<and> nextLeft \<and> nextRight \<and> nextBlinkCount \<ge> 2
                            then s3\<lparr>livenessPassed := True\<rparr> else s3)
                      else s))
         else s\<lparr>yawBeyondSinceRef := None\<rparr>)"

text \<open>
  The whole callback.  An exception thrown by an extractor is caught by the
  \<open>try\<close>/\<open>catch\<close> of \<open>onResults\<close>, which logs it: the call ends there, with
  whatever it has written so far.
\<close>

definition onResults :: "props \<Rightarrow> captured \<Rightarrow> frame \<Rightarrow> session \<Rightarrow> session" where
  "onResults p c f s0 =
     (let sa = s0\<lparr>frameCountRef := frameCountRef s0 + 1\<rparr>
      in case f of
           NoFace \<Rightarrow>
             updateDebug 0 0 0
               (sa\<lparr>lastFacePresentRef := False, eyesClosedSinceRef := None,
                    yawBeyondSinceRef := None\<rparr>)
         | Face el er yw t \<Rightarrow>
             (let sb = sa\<lparr>lastFacePresentRef := True\<rparr>
              in case el of
                   Throws \<Rightarrow> sb
                 | Returns left \<Rightarrow>
                     (case er of
                        Throws \<Rightarrow> sb
                      | Returns right \<Rightarrow>
                          (let sc = sb\<lparr>earLeftEMARef := Some (ema (earLeftEMARef sb) left (35 / 100)),
                                       earRightEMARef := Some (ema (earRightEMARef sb) right (35 / 100))\<rparr>;
                               lSm = (case earLeftEMARef sc of None \<Rightarrow> left | Some v \<Rightarrow> v);
                               rSm = (case earRightEMARef sc of None \<Rightarrow> right | Some v \<Rightarrow> v);
                               earAvg = (lSm + rSm) / 2;
                               (sd, nextBlinkCount) = blinkSection p c earAvg t sc
                           in case yw of
                                Throws \<Rightarrow> sd
                              | Returns yawR \<Rightarrow>
                                  (let se = sd\<lparr>yawEMARef := Some (ema (yawEMARef sd) yawR (25 / 100))\<rparr>;
                                       yawSm = (case yawEMARef se of None \<Rightarrow> yawR | Some v \<Rightarrow> v);
                                       sf = turnSection p c yawSm t nextBlinkCount se;
                                       sg = updateDebug lSm rSm yawSm sf
                                   in if \<not> livenessPassed c \<and> nextBlinkCount \<ge> 2
                                         \<and> turnDetected c \<noteq> None
                                      then sg\<lparr>livenessPassed := True\<rparr> else sg)))))"

subsection \<open>Effects and lifecycle\<close>

text \<open>The final-guard effect.\<close>

definition finalGuard :: "session \<Rightarrow> session" where
  "finalGuard s =
     (if \<not> livenessPassed s \<and> turnedLeft s \<and> turnedRight s \<and> blinkCount s \<ge> 2
      then s\<lparr>livenessPassed := True\<rparr> else s)"

text \<open>
  What React does after a call has queued its updates: the state is committed, and
  an effect runs when one of its dependencies differs from the previous commit.
  The final guard depends on \<open>turnedLeft\<close>, \<open>turnedRight\<close>, \<open>blinkCount\<close> and
  \<open>livenessPassed\<close>; the effect that copies \<open>blinkCount\<close> into \<open>blinkCountRef\<close>
  depends on \<open>blinkCount\<close>.  When the guard sets \<open>livenessPassed\<close> the effects run
  once more and find nothing to do.
\<close>

definition commit :: "session \<Rightarrow> session \<Rightarrow> session" where
  "commit old new =
     (let s1 = (if (turnedLeft new, turnedRight new, blinkCount new, livenessPassed new)
                   = (turnedLeft old, turnedRight old, blinkCount old, livenessPassed old)
                then new else finalGuard new)
      in if blinkCount new = blinkCount old then s1
         else s1\<lparr>blinkCountRef := blinkCount new\<rparr>)"

definition deliver :: "props \<Rightarrow> captured \<Rightarrow> frame \<Rightarrow> session \<Rightarrow> session" where
  "deliver p c f s = commit s (onResults p c f s)"

text \<open>\<open>resetSession\<close>; \<open>dateNow\<close> is the reading of \<open>Date.now()\<close>.\<close>

definition resetSession :: "real \<Rightarrow> session \<Rightarrow> session" where
  "resetSession dateNow s =
     s\<lparr>blinkCount := 0, blinkCountRef := 0, turnDetected := None, turnedLeft := False,
       turnedRight := False, livenessPassed := False, leftEAR := 0, rightEAR := 0,
       yawDev := 0, earLeftEMARef := None, earRightEMARef := None,
       eyesClosedSinceRef := None, eyesWereClosedRef := False, lastBlinkAtRef := 0,
       yawEMARef := None, yawBeyondSinceRef := None, startedAtRef := Some dateNow,
       frameCountRef := 0, lastFacePresentRef := False\<rparr>"

text \<open>The initial values of the \<open>useState\<close> and \<open>useRef\<close> calls (the first render).\<close>

definition mounted :: session where
  "mounted =
     \<lparr>blinkCount = 0, turnDetected = None, livenessPassed = False, turnedLeft = False,
      turnedRight = False, leftEAR = 0, rightEAR = 0, yawDev = 0, startedAtRef = None,
      earLeftEMARef = None, earRightEMARef = None, eyesClosedSinceRef = None,
      eyesWereClosedRef = False, lastBlinkAtRef = 0, yawEMARef = None,
      yawBeyondSinceRef = None, frameCountRef = 0, lastFacePresentRef = False,
      blinkCountRef = 0\<rparr>"

text \<open>
  Which instance of \<open>onResults\<close> receives the frames.  The only registration is
  \<open>fm.onResults(onResults)\<close> inside \<open>start\<close>.  \<open>start\<close> is memoised by
  \<open>useCallback\<close> with the dependency list \<open>[resetSession]\<close>, and \<open>resetSession\<close> with
  the empty list, so every later render returns the \<open>start\<close> of the first render,
  and the \<open>onResults\<close> it names is the one created by the first render.  That
  instance closes over the initial values of the state variables
  (\<open>blinkCount = 0\<close>, \<open>turnDetected = null\<close>, \<open>livenessPassed = false\<close>,
  \<open>turnedLeft = false\<close>, \<open>turnedRight = false\<close>).  The source knows that the
  state read inside the callback is not the live one: the blink count is taken from
  \<open>blinkCountRef\<close>, with the comment "read the live value".  \<open>handleReset\<close> calls
  the same \<open>start\<close>, so a reset registers the same instance again.
\<close>

definition registered :: captured where
  "registered = captured.truncate mounted"

definition frameCallback :: "props \<Rightarrow> frame \<Rightarrow> session \<Rightarrow> session" where
  "frameCallback p f s = deliver p registered f s"

text \<open>A run of calls, each by an arbitrary instance, and a run of the registered one.\<close>

fun deliveries :: "props \<Rightarrow> (captured \<times> frame) list \<Rightarrow> session \<Rightarrow> session" where
  "deliveries p [] s = s"
| "deliveries p (cf # cfs) s = deliveries p cfs (deliver p (fst cf) (snd cf) s)"

fun frames :: "props \<Rightarrow> frame list \<Rightarrow> session \<Rightarrow> session" where
  "frames p [] s = s"
| "frames p (f # fs) s = frames p fs (frameCallback p f s)"

text \<open>The payload handed to \<open>onChange\<close> (the snapshot the parent sees).\<close>

definition onChangePayload ::
  "session \<Rightarrow> bool \<times> nat \<times> direction option \<times> bool \<times> bool \<times> real \<times> real \<times> real \<times> real option" where
  "onChangePayload s =
     (livenessPassed s, blinkCount s, turnDetected s, turnedLeft s, turnedRight s,
      leftEAR s, rightEAR s, yawDev s, startedAtRef s)"

text \<open>
  The value \<open>earAvg\<close> that a call computes from the raw ratios \<open>left\<close> and
  \<open>right\<close>: the mean of the two smoothed ratios.
\<close>

definition smoothedEarAvg :: "session \<Rightarrow> real \<Rightarrow> real \<Rightarrow> real" where
  "smoothedEarAvg s left right =
     (ema (earLeftEMARef s) left (35 / 100) + ema (earRightEMARef s) right (35 / 100)) / 2"

subsection \<open>Auxiliary definitions\<close>

text \<open>
  The state of a session between two calls of the registered instance: the ref
  \<open>blinkCountRef\<close> agrees with the state variable, and \<open>livenessPassed\<close> is exactly
  the condition of the final guard.
\<close>

definition guarded :: "session \<Rightarrow> bool" where
  "guarded s = (blinkCountRef s = blinkCount s
     \<and> livenessPassed s = (2 \<le> blinkCount s \<and> turnedLeft s \<and> turnedRight s))"

text \<open>
  A concrete session that passes.  The eyes are seen closed at 1000 ms and open at
  1300 ms, closed again at 1600 ms and open at 1900 ms; the smoothed yaw is 1 from
  1000 ms on and is pulled to \<open>-1\<close> at 1600 ms.
\<close>

definition passingRun :: "frame list" where
  "passingRun =
     [Face (Returns (1 / 10)) (Returns (1 / 10)) (Returns 1) 1000,
      Face (Returns (1 / 2)) (Returns (1 / 2)) (Returns 1) 1300,
      Face (Returns 0) (Returns 0) (Returns (- 7)) 1600,
      Face (Returns (1 / 2)) (Returns (1 / 2)) (Returns (- 7)) 1900]"

text \<open>A session in the middle of a closure, 50 ms after a counted blink.\<close>

definition refractorySession :: session where
  "refractorySession =
     mounted\<lparr>blinkCount := 1, blinkCountRef := 1, lastBlinkAtRef := 1000,
       eyesWereClosedRef := True, eyesClosedSinceRef := Some 1050\<rparr>"

text \<open>
  The condition under which the turn section reports a turn: the smoothed yaw is
  beyond the threshold, the timer is set (and is not the number 0), and it is at
  least \<open>yawHoldMinMs\<close> old.
\<close>

definition turnEvent :: "props \<Rightarrow> session \<Rightarrow> real \<Rightarrow> real \<Rightarrow> bool" where
  "turnEvent p s yawSm t =
     (yawAbsThreshold p \<le> \<bar>yawSm\<bar>
      \<and> (case yawBeyondSinceRef s of
            None \<Rightarrow> False
          | Some since \<Rightarrow> since \<noteq> 0 \<and> yawHoldMinMs p \<le> t - since))"

text \<open>
  A continuous excursion: a run of frames with a face, each with all three
  extractions returning and with the smoothed yaw, as the call computes it from
  \<open>yawEMARef\<close>, at or beyond the threshold.
\<close>

fun excursion :: "props \<Rightarrow> session \<Rightarrow> frame list \<Rightarrow> bool" where
  "excursion p s [] = True"
| "excursion p s (Face (Returns l) (Returns r) (Returns y) t # fs) =
     (yawAbsThreshold p \<le> \<bar>ema (yawEMARef s) y (25 / 100)\<bar>
      \<and> excursion p (frameCallback p (Face (Returns l) (Returns r) (Returns y) t) s) fs)"
| "excursion p s (f # fs) = False"

lemmas run_defs = passingRun_def frameCallback_def deliver_def commit_def onResults_def
  blinkSection_def turnSection_def updateDebug_def toFixed3_def ema_def resetSession_def
  mounted_def registered_def captured.truncate_def defaultProps_def openTh_def closeTh_def
  refractoryMs_def finalGuard_def smoothedEarAvg_def Let_def

section \<open>Properties\<close>

subsection \<open>What the sections of the callback leave alone\<close>

lemma blinkSection_untouched:
  "livenessPassed (fst (blinkSection p c e t s)) = livenessPassed s"
  "turnedLeft (fst (blinkSection p c e t s)) = turnedLeft s"
  "turnedRight (fst (blinkSection p c e t s)) = turnedRight s"
  "turnDetected (fst (blinkSection p c e t s)) = turnDetected s"
  "yawBeyondSinceRef (fst (blinkSection p c e t s)) = yawBeyondSinceRef s"
  "yawEMARef (fst (blinkSection p c e t s)) = yawEMARef s"
  by (simp_all add: blinkSection_def Let_def)

lemma blinkSection_count:
  "blinkCountRef s = blinkCount s \<Longrightarrow>
     blinkCountRef (fst (blinkSection p c e t s)) = blinkCount (fst (blinkSection p c e t s))
     \<and> blinkCount s \<le> blinkCount (fst (blinkSection p c e t s))"
  by (simp add: blinkSection_def Let_def)

lemma blinkSection_next:
  "snd (blinkSection p c e t s) = blinkCount c
   \<or> snd (blinkSection p c e t s) = blinkCountRef s + 1"
  by (simp add: blinkSection_def Let_def)

lemma blinkSection_exit:
  assumes "eyesWereClosedRef s"
  shows "fst (blinkSection p c e t s) =
     (if e < openTh p then s
      else if earCloseMinMs p \<le> t - (case eyesClosedSinceRef s of None \<Rightarrow> t | Some t0 \<Rightarrow> t0)
              \<and> refractoryMs \<le> t - lastBlinkAtRef s
           then s\<lparr>eyesWereClosedRef := False, eyesClosedSinceRef := None,
                  blinkCount := blinkCountRef s + 1, blinkCountRef := blinkCountRef s + 1,
                  lastBlinkAtRef := t\<rparr>
           else s\<lparr>eyesWereClosedRef := False, eyesClosedSinceRef := None\<rparr>)"
  using assms by (simp add: blinkSection_def Let_def)

lemma blinkSection_since:
  "eyesClosedSinceRef s \<noteq> None \<longrightarrow> eyesWereClosedRef s \<Longrightarrow>
   eyesClosedSinceRef (fst (blinkSection p c e t s)) \<noteq> None
     \<longrightarrow> eyesWereClosedRef (fst (blinkSection p c e t s))"
  by (auto simp add: blinkSection_def Let_def)

lemma turnSection_untouched:
  "blinkCount (turnSection p c y t n s) = blinkCount s"
  "blinkCountRef (turnSection p c y t n s) = blinkCountRef s"
  "eyesWereClosedRef (turnSection p c y t n s) = eyesWereClosedRef s"
  "eyesClosedSinceRef (turnSection p c y t n s) = eyesClosedSinceRef s"
  "lastBlinkAtRef (turnSection p c y t n s) = lastBlinkAtRef s"
  by (simp_all add: turnSection_def Let_def split: option.split)

lemma turnSection_latch:
  "livenessPassed s \<Longrightarrow> livenessPassed (turnSection p c y t n s)"
  "turnedLeft s \<Longrightarrow> turnedLeft (turnSection p c y t n s)"
  "turnedRight s \<Longrightarrow> turnedRight (turnSection p c y t n s)"
  by (simp_all add: turnSection_def Let_def split: option.split)

lemma turnSection_effect:
  assumes "turnDetected c = None"
  shows "yawBeyondSinceRef (turnSection p c y t n s) =
           (if yawAbsThreshold p \<le> \<bar>y\<bar>
            then (case yawBeyondSinceRef s of
                    None \<Rightarrow> Some t
                  | Some since \<Rightarrow> if since = 0 then Some t else Some since)
            else None)"
    and "turnDetected (turnSection p c y t n s) =
           (if turnEvent p s y t then Some (if 0 < y then Right else Left) else turnDetected s)"
    and "turnedLeft (turnSection p c y t n s) = (turnedLeft s \<or> (turnEvent p s y t \<and> \<not> 0 < y))"
    and "turnedRight (turnSection p c y t n s) = (turnedRight s \<or> (turnEvent p s y t \<and> 0 < y))"
    and "yawEMARef (turnSection p c y t n s) = yawEMARef s"
  using assms
  by (auto simp add: turnSection_def turnEvent_def Let_def split: option.split)

subsection \<open>The callback and the commit\<close>

lemma onResults_latch:
  "livenessPassed s \<Longrightarrow> livenessPassed (onResults p c f s)"
  "turnedLeft s \<Longrightarrow> turnedLeft (onResults p c f s)"
  "turnedRight s \<Longrightarrow> turnedRight (onResults p c f s)"
  by (simp_all add: onResults_def Let_def updateDebug_def blinkSection_untouched turnSection_latch
      case_prod_beta split: frame.split extraction.split)

lemma onResults_blink_fields:
  "eyesWereClosedRef (onResults p c (Face (Returns l) (Returns r) yw t) s)
     = eyesWereClosedRef (fst (blinkSection p c (smoothedEarAvg s l r) t s))"
  "eyesClosedSinceRef (onResults p c (Face (Returns l) (Returns r) yw t) s)
     = eyesClosedSinceRef (fst (blinkSection p c (smoothedEarAvg s l r) t s))"
  "lastBlinkAtRef (onResults p c (Face (Returns l) (Returns r) yw t) s)
     = lastBlinkAtRef (fst (blinkSection p c (smoothedEarAvg s l r) t s))"
  "blinkCount (onResults p c (Face (Returns l) (Returns r) yw t) s)
     = blinkCount (fst (blinkSection p c (smoothedEarAvg s l r) t s))"
  "blinkCountRef (onResults p c (Face (Returns l) (Returns r) yw t) s)
     = blinkCountRef (fst (blinkSection p c (smoothedEarAvg s l r) t s))"
  by (simp_all add: onResults_def Let_def case_prod_beta updateDebug_def turnSection_untouched
      smoothedEarAvg_def blinkSection_def split: extraction.split)

lemma onResults_count:
  assumes "blinkCountRef s = blinkCount s"
  shows "blinkCountRef (onResults p c f s) = blinkCount (onResults p c f s)
     \<and> blinkCount s \<le> blinkCount (onResults p c f s)"
proof (cases f)
  case NoFace
  with assms show ?thesis by (simp add: onResults_def Let_def updateDebug_def)
next
  case (Face el er yw t)
  show ?thesis
  proof (cases el)
    case Throws
    with Face assms show ?thesis by (simp add: onResults_def Let_def)
  next
    case (Returns l)
    note L = this
    show ?thesis
    proof (cases er)
      case Throws
      with Face L assms show ?thesis by (simp add: onResults_def Let_def)
    next
      case (Returns r)
      with Face L blinkSection_count[OF assms, of p c "smoothedEarAvg s l r" t]
      show ?thesis by (simp add: onResults_blink_fields)
    qed
  qed
qed

lemma onResults_since:
  assumes "eyesClosedSinceRef s \<noteq> None \<longrightarrow> eyesWereClosedRef s"
  shows "eyesClosedSinceRef (onResults p c f s) \<noteq> None \<longrightarrow> eyesWereClosedRef (onResults p c f s)"
proof (cases f)
  case NoFace
  then show ?thesis by (simp add: onResults_def Let_def updateDebug_def)
next
  case (Face el er yw t)
  show ?thesis
  proof (cases el)
    case Throws
    with Face assms show ?thesis by (simp add: onResults_def Let_def)
  next
    case (Returns l)
    note L = this
    show ?thesis
    proof (cases er)
      case Throws
      with Face L assms show ?thesis by (simp add: onResults_def Let_def)
    next
      case (Returns r)
      with Face L blinkSection_since[OF assms, of p c "smoothedEarAvg s l r" t]
      show ?thesis by (simp add: onResults_blink_fields)
    qed
  qed
qed

lemma commit_latch:
  "livenessPassed n \<Longrightarrow> livenessPassed (commit s n)"
  "turnedLeft (commit s n) = turnedLeft n"
  "turnedRight (commit s n) = turnedRight n"
  "blinkCount (commit s n) = blinkCount n"
  "turnDetected (commit s n) = turnDetected n"
  by (simp_all add: commit_def finalGuard_def Let_def)

lemma commit_refs:
  "eyesWereClosedRef (commit s n) = eyesWereClosedRef n"
  "eyesClosedSinceRef (commit s n) = eyesClosedSinceRef n"
  "lastBlinkAtRef (commit s n) = lastBlinkAtRef n"
  "yawBeyondSinceRef (commit s n) = yawBeyondSinceRef n"
  "yawEMARef (commit s n) = yawEMARef n"
  "earLeftEMARef (commit s n) = earLeftEMARef n"
  "earRightEMARef (commit s n) = earRightEMARef n"
  "leftEAR (commit s n) = leftEAR n"
  "rightEAR (commit s n) = rightEAR n"
  "yawDev (commit s n) = yawDev n"
  by (simp_all add: commit_def finalGuard_def Let_def)

text \<open>The effects that follow \<open>resetSession\<close> find nothing to do.\<close>

lemma commit_resetSession: "commit s (resetSession d s) = resetSession d s"
  by (simp add: commit_def finalGuard_def resetSession_def Let_def)

lemma deliver_count:
  "blinkCountRef s = blinkCount s \<Longrightarrow>
     blinkCountRef (deliver p c f s) = blinkCount (deliver p c f s)
     \<and> blinkCount s \<le> blinkCount (deliver p c f s)"
  using onResults_count[of s p c f]
  by (simp add: deliver_def commit_def finalGuard_def Let_def)

lemma deliver_latch:
  "livenessPassed s \<Longrightarrow> livenessPassed (deliver p c f s)"
  "turnedLeft s \<Longrightarrow> turnedLeft (deliver p c f s)"
  "turnedRight s \<Longrightarrow> turnedRight (deliver p c f s)"
  by (simp_all add: deliver_def commit_latch onResults_latch)

lemma deliver_since:
  "eyesClosedSinceRef s \<noteq> None \<longrightarrow> eyesWereClosedRef s \<Longrightarrow>
   eyesClosedSinceRef (deliver p c f s) \<noteq> None \<longrightarrow> eyesWereClosedRef (deliver p c f s)"
  using onResults_since[of s p c f] by (simp add: deliver_def commit_refs)

subsection \<open>Runs of calls\<close>

lemma deliveries_count:
  "blinkCountRef s = blinkCount s \<Longrightarrow>
     blinkCountRef (deliveries p cfs s) = blinkCount (deliveries p cfs s)
     \<and> blinkCount s \<le> blinkCount (deliveries p cfs s)"
proof (induction cfs arbitrary: s)
  case Nil
  then show ?case by simp
next
  case (Cons cf cfs)
  from deliver_count[OF Cons.prems, of p "fst cf" "snd cf"]
  have a: "blinkCountRef (deliver p (fst cf) (snd cf) s) = blinkCount (deliver p (fst cf) (snd cf) s)"
    and b: "blinkCount s \<le> blinkCount (deliver p (fst cf) (snd cf) s)" by simp_all
  from Cons.IH[OF a] b show ?case by simp
qed

lemma deliveries_latch:
  "livenessPassed s \<Longrightarrow> livenessPassed (deliveries p cfs s)"
  by (induction cfs arbitrary: s) (simp_all add: deliver_latch)

lemma deliveries_flags:
  "turnedLeft s \<Longrightarrow> turnedLeft (deliveries p cfs s)"
  "turnedRight s \<Longrightarrow> turnedRight (deliveries p cfs s)"
  by (induction cfs arbitrary: s) (simp_all add: deliver_latch)

lemma deliveries_since:
  "eyesClosedSinceRef s \<noteq> None \<longrightarrow> eyesWereClosedRef s \<Longrightarrow>
   eyesClosedSinceRef (deliveries p cfs s) \<noteq> None \<longrightarrow> eyesWereClosedRef (deliveries p cfs s)"
proof (induction cfs arbitrary: s)
  case Nil
  then show ?case by simp
next
  case (Cons cf cfs)
  from Cons.IH[OF deliver_since[OF Cons.prems, of p "fst cf" "snd cf"]]
  show ?case by simp
qed

text \<open>A run of the registered instance is a run of calls.\<close>

lemma frames_deliveries:
  "frames p fs s = deliveries p (map (Pair registered) fs) s"
  by (induction fs arbitrary: s) (simp_all add: frameCallback_def)

subsection \<open>The registered instance\<close>

lemma registered_simps:
  "blinkCount registered = 0" "turnDetected registered = None" "\<not> livenessPassed registered"
  "\<not> turnedLeft registered" "\<not> turnedRight registered"
  by (simp_all add: registered_def mounted_def captured.truncate_def)

text \<open>
  What a frame with a face does to the turn detector, for the registered instance:
  the smoother is updated, the timer is started, kept or cleared, and a turn is
  reported exactly when \<open>turnEvent\<close> holds.
\<close>

lemma frameCallback_turn:
  fixes s :: session and p :: props and y l r t :: real
  defines "yawSm \<equiv> ema (yawEMARef s) y (25 / 100)"
  defines "s' \<equiv> frameCallback p (Face (Returns l) (Returns r) (Returns y) t) s"
  shows "yawEMARef s' = Some yawSm"
    and "yawBeyondSinceRef s' =
           (if yawAbsThreshold p \<le> \<bar>yawSm\<bar>
            then (case yawBeyondSinceRef s of
                    None \<Rightarrow> Some t
                  | Some since \<Rightarrow> if since = 0 then Some t else Some since)
            else None)"
    and "turnDetected s' =
           (if turnEvent p s yawSm t then Some (if 0 < yawSm then Right else Left) else turnDetected s)"
    and "turnedLeft s' = (turnedLeft s \<or> (turnEvent p s yawSm t \<and> \<not> 0 < yawSm))"
    and "turnedRight s' = (turnedRight s \<or> (turnEvent p s yawSm t \<and> 0 < yawSm))"
proof -
  let ?sc = "s\<lparr>frameCountRef := frameCountRef s + 1, lastFacePresentRef := True,
        earLeftEMARef := Some (ema (earLeftEMARef s) l (35 / 100)),
        earRightEMARef := Some (ema (earRightEMARef s) r (35 / 100))\<rparr>"
  let ?avg = "(ema (earLeftEMARef s) l (35 / 100) + ema (earRightEMARef s) r (35 / 100)) / 2"
  let ?sd = "fst (blinkSection p registered ?avg t ?sc)"
  let ?n = "snd (blinkSection p registered ?avg t ?sc)"
  let ?se = "?sd\<lparr>yawEMARef := Some yawSm\<rparr>"
  let ?f = "Face (Returns l) (Returns r) (Returns y) t"
  have flds: "yawBeyondSinceRef ?se = yawBeyondSinceRef s" "turnDetected ?se = turnDetected s"
    "turnedLeft ?se = turnedLeft s" "turnedRight ?se = turnedRight s"
    by (simp_all add: blinkSection_untouched)
  have ev: "turnEvent p ?se yawSm t = turnEvent p s yawSm t"
    by (simp add: turnEvent_def blinkSection_untouched)
  have eq: "turnDetected (onResults p registered ?f s) = turnDetected (turnSection p registered yawSm t ?n ?se)"
    "turnedLeft (onResults p registered ?f s) = turnedLeft (turnSection p registered yawSm t ?n ?se)"
    "turnedRight (onResults p registered ?f s) = turnedRight (turnSection p registered yawSm t ?n ?se)"
    "yawBeyondSinceRef (onResults p registered ?f s)
        = yawBeyondSinceRef (turnSection p registered yawSm t ?n ?se)"
    "yawEMARef (onResults p registered ?f s) = yawEMARef (turnSection p registered yawSm t ?n ?se)"
    by (simp_all add: onResults_def Let_def case_prod_beta updateDebug_def blinkSection_untouched
        yawSm_def)
  note ts = turnSection_effect[OF registered_simps(2), of p yawSm t ?n ?se]
  show "yawEMARef s' = Some yawSm"
    using ts(5) by (simp add: s'_def frameCallback_def deliver_def commit_refs eq(5))
  show "yawBeyondSinceRef s' =
           (if yawAbsThreshold p \<le> \<bar>yawSm\<bar>
            then (case yawBeyondSinceRef s of
                    None \<Rightarrow> Some t
                  | Some since \<Rightarrow> if since = 0 then Some t else Some since)
            else None)"
    using ts(1) by (simp add: s'_def frameCallback_def deliver_def commit_refs eq(4) blinkSection_untouched)
  show "turnDetected s' =
           (if turnEvent p s yawSm t then Some (if 0 < yawSm then Right else Left) else turnDetected s)"
    using ts(2) ev by (simp add: s'_def frameCallback_def deliver_def commit_latch eq(1) blinkSection_untouched)
  show "turnedLeft s' = (turnedLeft s \<or> (turnEvent p s yawSm t \<and> \<not> 0 < yawSm))"
    using ts(3) ev by (simp add: s'_def frameCallback_def deliver_def commit_latch eq(2) blinkSection_untouched)
  show "turnedRight s' = (turnedRight s \<or> (turnEvent p s yawSm t \<and> 0 < yawSm))"
    using ts(4) ev by (simp add: s'_def frameCallback_def deliver_def commit_latch eq(3) blinkSection_untouched)
qed

lemma frames_append: "frames p (fs @ gs) s = frames p gs (frames p fs s)"
  by (induction fs arbitrary: s) simp_all

lemma excursion_append:
  "excursion p s (fs @ gs) = (excursion p s fs \<and> excursion p (frames p fs s) gs)"
  by (induction p s fs rule: excursion.induct) simp_all

lemma excursion_keeps_timer:
  "yawBeyondSinceRef s = Some t1 \<Longrightarrow> t1 \<noteq> 0 \<Longrightarrow> excursion p s fs
     \<Longrightarrow> yawBeyondSinceRef (frames p fs s) = Some t1"
proof (induction p s fs rule: excursion.induct)
  case (2 p s l r y t fs)
  from "2.prems" have b: "yawAbsThreshold p \<le> \<bar>ema (yawEMARef s) y (25 / 100)\<bar>"
    and e: "excursion p (frameCallback p (Face (Returns l) (Returns r) (Returns y) t) s) fs"
    by simp_all
  have "yawBeyondSinceRef (frameCallback p (Face (Returns l) (Returns r) (Returns y) t) s) = Some t1"
    using b "2.prems"(1) "2.prems"(2) by (simp add: frameCallback_turn(2))
  from "2.IH"[OF this "2.prems"(2) e] show ?case by simp
qed simp_all

text \<open>
  In the registered instance neither frame-local check can fire: the one in the
  turn section needs \<open>nextLeft\<close> and \<open>nextRight\<close>, one of which is the captured
  \<open>False\<close>, and the one at the end of the call needs a captured \<open>turnDetected\<close>.
  The call itself therefore never changes \<open>livenessPassed\<close>; the final guard does.
\<close>

lemma turnSection_registered:
  "livenessPassed (turnSection p registered y t n s) = livenessPassed s"
  by (simp add: turnSection_def Let_def registered_simps split: option.split)

lemma onResults_registered:
  "livenessPassed (onResults p registered f s) = livenessPassed s"
  by (simp add: onResults_def Let_def updateDebug_def blinkSection_untouched turnSection_registered
      registered_simps case_prod_beta split: frame.split extraction.split)

text \<open>
  An instance that has captured two blinks and one detected turn would pass at the
  end of a call with one direction only: the last check of \<open>onResults\<close> tests
  \<open>nextTurnDetected\<close>, not the two flags.  No such instance is ever registered.
\<close>

lemma frame_check_other_instance:
  assumes "\<not> livenessPassed c" and "2 \<le> blinkCount c" and "turnDetected c \<noteq> None"
    and "1 \<le> blinkCountRef s"
  shows "livenessPassed (onResults p c (Face (Returns l) (Returns r) (Returns y) t) s)"
proof -
  have "2 \<le> snd (blinkSection p c e t' s')" if "blinkCountRef s' = blinkCountRef s" for e t' s'
    using blinkSection_next[of p c e t' s'] assms(2) assms(4) that by auto
  then show ?thesis
    using assms(1) assms(3)
    by (simp add: onResults_def Let_def case_prod_beta)
qed

lemma guarded_resetSession: "guarded (resetSession d s)"
  by (simp add: guarded_def resetSession_def)

lemma guarded_frameCallback:
  assumes "guarded s"
  shows "guarded (frameCallback p f s)"
proof -
  let ?n = "onResults p registered f s"
  have sync: "blinkCountRef s = blinkCount s" using assms by (simp add: guarded_def)
  have c: "blinkCountRef ?n = blinkCount ?n" "blinkCount s \<le> blinkCount ?n"
    using onResults_count[OF sync, of p registered f] by simp_all
  have l: "turnedLeft s \<Longrightarrow> turnedLeft ?n" and r: "turnedRight s \<Longrightarrow> turnedRight ?n"
    by (simp_all add: onResults_latch)
  have ps: "livenessPassed ?n = livenessPassed s" by (rule onResults_registered)
  have pd: "livenessPassed s = (2 \<le> blinkCount s \<and> turnedLeft s \<and> turnedRight s)"
    using assms by (simp add: guarded_def)
  show ?thesis
    unfolding frameCallback_def deliver_def guarded_def commit_def finalGuard_def Let_def
    using c l r ps pd by auto
qed

lemma guarded_frames: "guarded s \<Longrightarrow> guarded (frames p fs s)"
  by (induction fs arbitrary: s) (simp_all add: guarded_frameCallback)

lemma frameCallback_latch:
  "livenessPassed s \<Longrightarrow> livenessPassed (frameCallback p f s)"
  by (simp add: frameCallback_def deliver_latch)

lemma passingRun_passes:
  "livenessPassed (deliveries defaultProps (map (Pair registered) passingRun) (resetSession 0 mounted))"
  by (simp add: run_defs)

section \<open>The claims\<close>

subsection \<open>The pass decision\<close>

text \<open>
  After the effects that follow a call, the pass decision of a session is the
  predicate of the final guard on the committed values, and \<open>livenessPassed\<close> is
  never true unless both directions have been achieved.
\<close>

lemma settled_pass_decision:
  "let s = frames p fs (resetSession d s0); s' = frameCallback p f s
   in livenessPassed s' =
        (livenessPassed s \<or> (2 \<le> blinkCount s' \<and> turnedLeft s' \<and> turnedRight s'))
      \<and> (livenessPassed s' \<longrightarrow> turnedLeft s' \<and> turnedRight s')"
proof -
  let ?s = "frames p fs (resetSession d s0)"
  have g: "guarded ?s" by (simp add: guarded_frames guarded_resetSession)
  then have g': "guarded (frameCallback p f ?s)" by (rule guarded_frameCallback)
  have "livenessPassed ?s \<Longrightarrow> livenessPassed (frameCallback p f ?s)"
    by (rule frameCallback_latch)
  with g' show ?thesis
    by (auto simp add: Let_def guarded_def)
qed

text \<open>
  C1.  The claim: for every processed frame the pass decision after the frame is
  \<open>passed_next = passed_current OR (blinkCount >= 2 AND turnedLeft AND turnedRight)\<close>,
  evaluated on the values produced by that same call.  The call does not do this.
  On the fourth frame of \<open>passingRun\<close> the call counts the second blink, so that
  its values are two blinks and both flags, and leaves \<open>livenessPassed\<close> false:
  its frame-local checks read the values the registered instance closes over and
  cannot fire (lemma \<open>onResults_registered\<close>).  The payload that the \<open>onChange\<close>
  effect hands out for the commit of these values says that the session has not
  passed; only the final guard, an effect of that commit, sets \<open>livenessPassed\<close>
  for the next render.
\<close>

theorem frame_local_check_lags:
  "let s = frames defaultProps (take 3 passingRun) (resetSession 0 mounted);
       n = onResults defaultProps registered (passingRun ! 3) s
   in \<not> livenessPassed s \<and> blinkCount n = 2 \<and> turnedLeft n \<and> turnedRight n
      \<and> \<not> livenessPassed n
      \<and> onChangePayload n
          = (False, 2, Some Left, True, True, 69 / 250, 69 / 250, - (5 / 2), Some 0)
      \<and> livenessPassed (commit s n)
      \<and> livenessPassed (frameCallback defaultProps (passingRun ! 3) s)"
  by (simp add: run_defs onChangePayload_def)

subsection \<open>Monotonicity\<close>

text \<open>
  C2.  Within one session, whatever instances of the callback receive the frames,
  \<open>blinkCount\<close> never decreases and \<open>livenessPassed\<close>, once true, stays true;
  \<open>resetSession\<close> sets the count to 0 and \<open>livenessPassed\<close> to false.
\<close>

theorem monotone_within_session:
  "let s = deliveries p cfs (resetSession d s0); s' = deliveries p cfs' s
   in blinkCount s \<le> blinkCount s' \<and> (livenessPassed s \<longrightarrow> livenessPassed s')
      \<and> blinkCount (resetSession d' s') = 0 \<and> \<not> livenessPassed (resetSession d' s')"
proof -
  have "blinkCountRef (resetSession d s0) = blinkCount (resetSession d s0)"
    by (simp add: resetSession_def)
  then have "blinkCountRef (deliveries p cfs (resetSession d s0))
      = blinkCount (deliveries p cfs (resetSession d s0))"
    using deliveries_count by blast
  then have "blinkCount (deliveries p cfs (resetSession d s0))
      \<le> blinkCount (deliveries p cfs' (deliveries p cfs (resetSession d s0)))"
    using deliveries_count by blast
  then show ?thesis
    by (simp add: Let_def deliveries_latch) (simp add: resetSession_def)
qed

text \<open>The session of \<open>passingRun\<close> has passed, and a frame without a face keeps it so.\<close>

theorem monotone_within_session_witness:
  "livenessPassed (deliveries defaultProps (map (Pair registered) passingRun) (resetSession 0 mounted))
   \<and> livenessPassed (deliveries defaultProps [(registered, NoFace)]
         (deliveries defaultProps (map (Pair registered) passingRun) (resetSession 0 mounted)))
   \<and> blinkCount (deliveries defaultProps (map (Pair registered) passingRun) (resetSession 0 mounted))
       \<le> blinkCount (deliveries defaultProps [(registered, NoFace)]
         (deliveries defaultProps (map (Pair registered) passingRun) (resetSession 0 mounted)))"
  using monotone_within_session[of defaultProps "map (Pair registered) passingRun" 0 mounted
      "[(registered, NoFace)]" 0] passingRun_passes
  by (simp add: Let_def)

subsection \<open>The blink detector\<close>

text \<open>
  C3.  The detector is closed (\<open>eyesWereClosedRef\<close>, with the closure's start in
  \<open>eyesClosedSinceRef\<close>) and a frame arrives whose EAR extractions return.  The open
  threshold is the close threshold plus the margin 0.03, and the refractory period
  is 250 ms.  If the averaged smoothed EAR reaches the open threshold, the detector
  leaves the closed state, and it counts one blink (\<open>blinkCount\<close> incremented,
  \<open>lastBlinkAtRef\<close> set to the clock reading) if and only if the closure lasted at
  least \<open>earCloseMinMs\<close> and the last blink is at least the refractory period ago;
  otherwise nothing is counted.  Below the open threshold the detector stays closed
  and nothing changes.  The result is the same for every instance of the callback
  and whether or not the yaw extraction throws.
\<close>

theorem blink_exit:
  assumes "eyesWereClosedRef s" and "eyesClosedSinceRef s = Some since"
    and "blinkCountRef s = blinkCount s"
  shows "let earAvg = smoothedEarAvg s l r;
             s' = deliver p c (Face (Returns l) (Returns r) yw t) s;
             counted = (earCloseMinMs p \<le> t - since \<and> refractoryMs \<le> t - lastBlinkAtRef s)
         in openTh p = closeTh p + 3 / 100 \<and> refractoryMs = 250
            \<and> (if openTh p \<le> earAvg
                 then \<not> eyesWereClosedRef s' \<and> eyesClosedSinceRef s' = None
                      \<and> blinkCount s' = (if counted then blinkCount s + 1 else blinkCount s)
                      \<and> lastBlinkAtRef s' = (if counted then t else lastBlinkAtRef s)
                 else eyesWereClosedRef s' \<and> eyesClosedSinceRef s' = Some since
                      \<and> blinkCount s' = blinkCount s \<and> lastBlinkAtRef s' = lastBlinkAtRef s)"
  using assms
  by (simp add: Let_def deliver_def commit_refs commit_latch onResults_blink_fields
      blinkSection_exit openTh_def closeTh_def refractoryMs_def)

text \<open>
  After the first frame of \<open>passingRun\<close> the eyes are closed since 1000 ms.  A frame
  at 1300 ms with raw EAR 0.5 ends the closure and counts a blink; one with raw EAR
  0.25 leaves the smoothed average in the hysteresis band and changes nothing.
\<close>

theorem blink_exit_witness:
  "eyesWereClosedRef (frames defaultProps (take 1 passingRun) (resetSession 0 mounted))
   \<and> eyesClosedSinceRef (frames defaultProps (take 1 passingRun) (resetSession 0 mounted)) = Some 1000
   \<and> blinkCountRef (frames defaultProps (take 1 passingRun) (resetSession 0 mounted))
       = blinkCount (frames defaultProps (take 1 passingRun) (resetSession 0 mounted))
   \<and> openTh defaultProps
       \<le> smoothedEarAvg (frames defaultProps (take 1 passingRun) (resetSession 0 mounted)) (1 / 2) (1 / 2)
   \<and> earCloseMinMs defaultProps \<le> 1300 - 1000
   \<and> blinkCount (deliver defaultProps registered (Face (Returns (1 / 2)) (Returns (1 / 2)) (Returns 1) 1300)
         (frames defaultProps (take 1 passingRun) (resetSession 0 mounted))) = 1
   \<and> lastBlinkAtRef (deliver defaultProps registered (Face (Returns (1 / 2)) (Returns (1 / 2)) (Returns 1) 1300)
         (frames defaultProps (take 1 passingRun) (resetSession 0 mounted))) = 1300
   \<and> smoothedEarAvg (frames defaultProps (take 1 passingRun) (resetSession 0 mounted)) (1 / 4) (1 / 4)
       < openTh defaultProps
   \<and> eyesWereClosedRef (deliver defaultProps registered (Face (Returns (1 / 4)) (Returns (1 / 4)) (Returns 1) 1300)
         (frames defaultProps (take 1 passingRun) (resetSession 0 mounted)))
   \<and> blinkCount (deliver defaultProps registered (Face (Returns (1 / 4)) (Returns (1 / 4)) (Returns 1) 1300)
         (frames defaultProps (take 1 passingRun) (resetSession 0 mounted))) = 0"
  using blink_exit[of "frames defaultProps (take 1 passingRun) (resetSession 0 mounted)" 1000
      "1 / 2" "1 / 2" defaultProps registered "Returns 1" 1300]
    blink_exit[of "frames defaultProps (take 1 passingRun) (resetSession 0 mounted)" 1000
      "1 / 4" "1 / 4" defaultProps registered "Returns 1" 1300]
  by (simp add: run_defs)

subsection \<open>The turn detector\<close>

text \<open>
  C4.  A continuous excursion starts in a session whose timer is unset (as after
  \<open>resetSession\<close>, after a frame without a face and after a frame whose smoothed
  yaw is below the threshold; none of these reports a turn) with a frame at the
  clock reading \<open>t1\<close>, and goes on over any number of frames to a frame at the
  reading \<open>t\<close>.  The first frame starts the timer and reports nothing, and the
  timer holds \<open>t1\<close> for the whole excursion.  If the yaw has then stayed beyond the
  threshold for at least \<open>yawHoldMinMs\<close>, the last frame sets \<open>turnDetected\<close> to
  the direction of the sign of its smoothed yaw (right if positive, left otherwise,
  which is negative whenever the threshold is positive) and sets the flag of that
  direction, on every such frame; if not, it changes neither the direction nor the
  flags.  A flag that is set stays set over all further calls by any instance, and
  \<open>resetSession\<close> clears it.  The frames go to the registered instance; \<open>t1\<close> is
  not the reading 0, which the test \<open>!yawBeyondSinceRef.current\<close> would take for
  an unset timer.
\<close>

theorem turn_detector:
  assumes "yawBeyondSinceRef s = None" and "t1 \<noteq> 0"
    and "excursion p s (Face (Returns l1) (Returns r1) (Returns y1) t1
           # fs @ [Face (Returns l) (Returns r) (Returns y) t])"
  shows "let s1 = frameCallback p (Face (Returns l1) (Returns r1) (Returns y1) t1) s;
             sp = frames p fs s1;
             yawSm = ema (yawEMARef sp) y (25 / 100);
             s' = frameCallback p (Face (Returns l) (Returns r) (Returns y) t) sp
         in turnDetected s1 = turnDetected s \<and> turnedLeft s1 = turnedLeft s
            \<and> turnedRight s1 = turnedRight s
            \<and> yawBeyondSinceRef sp = Some t1
            \<and> (if yawHoldMinMs p \<le> t - t1
                then turnDetected s' = Some (if 0 < yawSm then Right else Left)
                     \<and> turnedRight s' = (turnedRight sp \<or> 0 < yawSm)
                     \<and> turnedLeft s' = (turnedLeft sp \<or> \<not> 0 < yawSm)
                else turnDetected s' = turnDetected sp \<and> turnedLeft s' = turnedLeft sp
                     \<and> turnedRight s' = turnedRight sp)
            \<and> (\<forall>cfs. (turnedLeft s' \<longrightarrow> turnedLeft (deliveries p cfs s'))
                     \<and> (turnedRight s' \<longrightarrow> turnedRight (deliveries p cfs s')))
            \<and> \<not> turnedLeft (resetSession d s') \<and> \<not> turnedRight (resetSession d s')
            \<and> yawBeyondSinceRef (resetSession d s') = None
            \<and> yawBeyondSinceRef (frameCallback p NoFace s0) = None
            \<and> turnDetected (frameCallback p NoFace s0) = turnDetected s0
            \<and> turnedLeft (frameCallback p NoFace s0) = turnedLeft s0
            \<and> turnedRight (frameCallback p NoFace s0) = turnedRight s0
            \<and> (\<bar>ema (yawEMARef s0) y0 (25 / 100)\<bar> < yawAbsThreshold p \<longrightarrow>
                 (let s2 = frameCallback p (Face (Returns l0) (Returns r0) (Returns y0) t0) s0
                  in yawBeyondSinceRef s2 = None \<and> turnDetected s2 = turnDetected s0
                     \<and> turnedLeft s2 = turnedLeft s0 \<and> turnedRight s2 = turnedRight s0))"
proof -
  let ?f1 = "Face (Returns l1) (Returns r1) (Returns y1) t1"
  let ?g = "Face (Returns l) (Returns r) (Returns y) t"
  let ?s1 = "frameCallback p ?f1 s"
  let ?sp = "frames p fs ?s1"
  let ?yawSm = "ema (yawEMARef ?sp) y (25 / 100)"
  let ?s' = "frameCallback p ?g ?sp"
  from assms(3) have b1: "yawAbsThreshold p \<le> \<bar>ema (yawEMARef s) y1 (25 / 100)\<bar>"
    and ex: "excursion p ?s1 (fs @ [?g])" by simp_all
  from ex have exfs: "excursion p ?s1 fs" and exg: "excursion p ?sp [?g]"
    by (simp_all add: excursion_append)
  from exg have bg: "yawAbsThreshold p \<le> \<bar>?yawSm\<bar>" by simp
  have noev1: "\<not> turnEvent p s yv tv" for yv tv
    using assms(1) by (simp add: turnEvent_def)
  have first: "turnDetected ?s1 = turnDetected s" "turnedLeft ?s1 = turnedLeft s"
    "turnedRight ?s1 = turnedRight s"
    by (simp_all add: frameCallback_turn noev1)
  have t1s: "yawBeyondSinceRef ?s1 = Some t1"
    using b1 assms(1) by (simp add: frameCallback_turn(2))
  have tsp: "yawBeyondSinceRef ?sp = Some t1"
    by (rule excursion_keeps_timer[OF t1s assms(2) exfs])
  have ev: "turnEvent p ?sp ?yawSm t = (yawHoldMinMs p \<le> t - t1)"
    using bg tsp assms(2) by (simp add: turnEvent_def)
  have last: "turnDetected ?s' =
        (if yawHoldMinMs p \<le> t - t1 then Some (if 0 < ?yawSm then Right else Left)
         else turnDetected ?sp)"
    "turnedLeft ?s' = (turnedLeft ?sp \<or> (yawHoldMinMs p \<le> t - t1 \<and> \<not> 0 < ?yawSm))"
    "turnedRight ?s' = (turnedRight ?sp \<or> (yawHoldMinMs p \<le> t - t1 \<and> 0 < ?yawSm))"
    using ev by (simp_all add: frameCallback_turn)
  have latch: "\<forall>cfs. (turnedLeft ?s' \<longrightarrow> turnedLeft (deliveries p cfs ?s'))
                     \<and> (turnedRight ?s' \<longrightarrow> turnedRight (deliveries p cfs ?s'))"
    by (simp add: deliveries_flags)
  have reset: "\<not> turnedLeft (resetSession d ?s')" "\<not> turnedRight (resetSession d ?s')"
    "yawBeyondSinceRef (resetSession d ?s') = None"
    by (simp_all add: resetSession_def)
  have noface: "yawBeyondSinceRef (frameCallback p NoFace s0) = None"
    "turnDetected (frameCallback p NoFace s0) = turnDetected s0"
    "turnedLeft (frameCallback p NoFace s0) = turnedLeft s0"
    "turnedRight (frameCallback p NoFace s0) = turnedRight s0"
    by (simp_all add: frameCallback_def deliver_def commit_refs commit_latch onResults_def
        updateDebug_def)
  have below: "\<bar>ema (yawEMARef s0) y0 (25 / 100)\<bar> < yawAbsThreshold p \<longrightarrow>
                 (let s2 = frameCallback p (Face (Returns l0) (Returns r0) (Returns y0) t0) s0
                  in yawBeyondSinceRef s2 = None \<and> turnDetected s2 = turnDetected s0
                     \<and> turnedLeft s2 = turnedLeft s0 \<and> turnedRight s2 = turnedRight s0)"
    by (simp add: Let_def frameCallback_turn turnEvent_def)
  show ?thesis
    unfolding Let_def
    using first tsp last latch reset noface below[unfolded Let_def]
    by simp
qed

text \<open>
  From a fresh session the yaw is beyond the threshold from 1000 ms on.  The frame
  at 1300 ms reports a turn to the right; after it the frame at 1600 ms, with the
  smoothed yaw at \<open>-1\<close>, reports a turn to the left; a frame at 1249 ms instead of
  1300 ms reports nothing; and a frame with raw yaw 0.1 reports nothing.
\<close>

theorem turn_detector_witness:
  "yawBeyondSinceRef (resetSession 0 mounted) = None \<and> (1000 :: real) \<noteq> 0
   \<and> excursion defaultProps (resetSession 0 mounted) (Face (Returns (1 / 10)) (Returns (1 / 10)) (Returns 1) 1000 # [] @ [Face (Returns (1 / 2)) (Returns (1 / 2)) (Returns 1) 1300])
   \<and> yawHoldMinMs defaultProps \<le> 1300 - 1000
   \<and> 0 < ema (yawEMARef (frames defaultProps [] (frameCallback defaultProps (Face (Returns (1 / 10)) (Returns (1 / 10)) (Returns 1) 1000) (resetSession 0 mounted)))) 1 (25 / 100)
   \<and> turnDetected (frameCallback defaultProps (Face (Returns (1 / 2)) (Returns (1 / 2)) (Returns 1) 1300) (frames defaultProps [] (frameCallback defaultProps (Face (Returns (1 / 10)) (Returns (1 / 10)) (Returns 1) 1000) (resetSession 0 mounted)))) = Some Right
   \<and> turnedRight (frameCallback defaultProps (Face (Returns (1 / 2)) (Returns (1 / 2)) (Returns 1) 1300) (frames defaultProps [] (frameCallback defaultProps (Face (Returns (1 / 10)) (Returns (1 / 10)) (Returns 1) 1000) (resetSession 0 mounted))))
   \<and> turnedRight (deliveries defaultProps [(registered, NoFace)] (frameCallback defaultProps (Face (Returns (1 / 2)) (Returns (1 / 2)) (Returns 1) 1300) (frames defaultProps [] (frameCallback defaultProps (Face (Returns (1 / 10)) (Returns (1 / 10)) (Returns 1) 1000) (resetSession 0 mounted)))))
   \<and> excursion defaultProps (resetSession 0 mounted) (Face (Returns (1 / 10)) (Returns (1 / 10)) (Returns 1) 1000 # [Face (Returns (1 / 2)) (Returns (1 / 2)) (Returns 1) 1300] @ [Face (Returns 0) (Returns 0) (Returns (- 7)) 1600])
   \<and> yawHoldMinMs defaultProps \<le> 1600 - 1000
   \<and> \<not> 0 < ema (yawEMARef (frames defaultProps [Face (Returns (1 / 2)) (Returns (1 / 2)) (Returns 1) 1300] (frameCallback defaultProps (Face (Returns (1 / 10)) (Returns (1 / 10)) (Returns 1) 1000) (resetSession 0 mounted)))) (- 7) (25 / 100)
   \<and> yawBeyondSinceRef (frames defaultProps [Face (Returns (1 / 2)) (Returns (1 / 2)) (Returns 1) 1300] (frameCallback defaultProps (Face (Returns (1 / 10)) (Returns (1 / 10)) (Returns 1) 1000) (resetSession 0 mounted))) = Some 1000
   \<and> turnDetected (frameCallback defaultProps (Face (Returns 0) (Returns 0) (Returns (- 7)) 1600) (frames defaultProps [Face (Returns (1 / 2)) (Returns (1 / 2)) (Returns 1) 1300] (frameCallback defaultProps (Face (Returns (1 / 10)) (Returns (1 / 10)) (Returns 1) 1000) (resetSession 0 mounted)))) = Some Left
   \<and> turnedLeft (frameCallback defaultProps (Face (Returns 0) (Returns 0) (Returns (- 7)) 1600) (frames defaultProps [Face (Returns (1 / 2)) (Returns (1 / 2)) (Returns 1) 1300] (frameCallback defaultProps (Face (Returns (1 / 10)) (Returns (1 / 10)) (Returns 1) 1000) (resetSession 0 mounted))))
   \<and> excursion defaultProps (resetSession 0 mounted) (Face (Returns (1 / 10)) (Returns (1 / 10)) (Returns 1) 1000 # [] @ [Face (Returns (1 / 2)) (Returns (1 / 2)) (Returns 1) 1249])
   \<and> \<not> yawHoldMinMs defaultProps \<le> 1249 - 1000
   \<and> turnDetected (frameCallback defaultProps (Face (Returns (1 / 2)) (Returns (1 / 2)) (Returns 1) 1249) (frames defaultProps [] (frameCallback defaultProps (Face (Returns (1 / 10)) (Returns (1 / 10)) (Returns 1) 1000) (resetSession 0 mounted)))) = turnDetected (frames defaultProps [] (frameCallback defaultProps (Face (Returns (1 / 10)) (Returns (1 / 10)) (Returns 1) 1000) (resetSession 0 mounted)))
   \<and> turnedRight (frameCallback defaultProps (Face (Returns (1 / 2)) (Returns (1 / 2)) (Returns 1) 1249) (frames defaultProps [] (frameCallback defaultProps (Face (Returns (1 / 10)) (Returns (1 / 10)) (Returns 1) 1000) (resetSession 0 mounted)))) = turnedRight (frames defaultProps [] (frameCallback defaultProps (Face (Returns (1 / 10)) (Returns (1 / 10)) (Returns 1) 1000) (resetSession 0 mounted)))
   \<and> \<bar>ema (yawEMARef (resetSession 0 mounted)) (1 / 10) (25 / 100)\<bar> < yawAbsThreshold defaultProps
   \<and> turnedRight (frameCallback defaultProps (Face (Returns (1 / 4)) (Returns (1 / 4)) (Returns (1 / 10)) 1) (resetSession 0 mounted)) = turnedRight (resetSession 0 mounted)
   \<and> turnDetected (frameCallback defaultProps (Face (Returns (1 / 4)) (Returns (1 / 4)) (Returns (1 / 10)) 1) (resetSession 0 mounted)) = turnDetected (resetSession 0 mounted)"
proof -
  have h1: "yawBeyondSinceRef (resetSession 0 mounted) = None"
    by (simp add: resetSession_def)
  have h2: "(1000 :: real) \<noteq> 0" by simp
  have e1: "excursion defaultProps (resetSession 0 mounted) (Face (Returns (1 / 10)) (Returns (1 / 10)) (Returns 1) 1000 # [] @ [Face (Returns (1 / 2)) (Returns (1 / 2)) (Returns 1) 1300])"
    by (simp add: run_defs)
  have e2: "excursion defaultProps (resetSession 0 mounted) (Face (Returns (1 / 10)) (Returns (1 / 10)) (Returns 1) 1000 # [Face (Returns (1 / 2)) (Returns (1 / 2)) (Returns 1) 1300] @ [Face (Returns 0) (Returns 0) (Returns (- 7)) 1600])"
    by (simp add: run_defs)
  have e3: "excursion defaultProps (resetSession 0 mounted) (Face (Returns (1 / 10)) (Returns (1 / 10)) (Returns 1) 1000 # [] @ [Face (Returns (1 / 2)) (Returns (1 / 2)) (Returns 1) 1249])"
    by (simp add: run_defs)
  have hold1: "yawHoldMinMs defaultProps \<le> 1300 - 1000"
    and hold2: "yawHoldMinMs defaultProps \<le> 1600 - 1000"
    and hold3: "\<not> yawHoldMinMs defaultProps \<le> 1249 - 1000"
    by (simp_all add: defaultProps_def)
  have y1: "0 < ema (yawEMARef (frames defaultProps [] (frameCallback defaultProps (Face (Returns (1 / 10)) (Returns (1 / 10)) (Returns 1) 1000) (resetSession 0 mounted)))) 1 (25 / 100)"
    by (simp add: run_defs)
  have y2: "\<not> 0 < ema (yawEMARef (frames defaultProps [Face (Returns (1 / 2)) (Returns (1 / 2)) (Returns 1) 1300] (frameCallback defaultProps (Face (Returns (1 / 10)) (Returns (1 / 10)) (Returns 1) 1000) (resetSession 0 mounted)))) (- 7) (25 / 100)"
    by (simp add: run_defs)
  have nb: "\<bar>ema (yawEMARef (resetSession 0 mounted)) (1 / 10) (25 / 100)\<bar> < yawAbsThreshold defaultProps"
    by (simp add: run_defs)
  note T1 = turn_detector[OF h1 h2 e1, where d = 0 and ?s0.0 = "resetSession 0 mounted" and ?y0.0 = "1 / 10"
      and ?l0.0 = "1 / 4" and ?r0.0 = "1 / 4" and ?t0.0 = 1, unfolded Let_def]
  note T2 = turn_detector[OF h1 h2 e2, where d = 0 and ?s0.0 = "resetSession 0 mounted" and ?y0.0 = "1 / 10"
      and ?l0.0 = "1 / 4" and ?r0.0 = "1 / 4" and ?t0.0 = 1, unfolded Let_def]
  note T3 = turn_detector[OF h1 h2 e3, where d = 0 and ?s0.0 = "resetSession 0 mounted" and ?y0.0 = "1 / 10"
      and ?l0.0 = "1 / 4" and ?r0.0 = "1 / 4" and ?t0.0 = 1, unfolded Let_def]
  show ?thesis
    using T1 T2 T3 h1 h2 e1 e2 e3 hold1 hold2 hold3 y1 y2 nb
    by (simp only: if_True if_False simp_thms)
qed

subsection \<open>Frames without a face\<close>

text \<open>
  C5 (as amended).  A frame without a face clears \<open>eyesClosedSinceRef\<close> and leaves
  \<open>eyesWereClosedRef\<close> as it was.  What holds after every call of a session is one
  direction of the invariant: when \<open>eyesClosedSinceRef\<close> is set, \<open>eyesWereClosedRef\<close>
  is true.
\<close>

theorem noface_blink_state:
  "eyesClosedSinceRef (deliver p c NoFace s) = None
   \<and> eyesWereClosedRef (deliver p c NoFace s) = eyesWereClosedRef s
   \<and> (let s' = deliveries p cfs (resetSession d s0)
       in eyesClosedSinceRef s' \<noteq> None \<longrightarrow> eyesWereClosedRef s')"
proof -
  have "eyesClosedSinceRef (resetSession d s0) \<noteq> None \<longrightarrow> eyesWereClosedRef (resetSession d s0)"
    by (simp add: resetSession_def)
  from deliveries_since[OF this, of p cfs] show ?thesis
    by (simp add: Let_def deliver_def commit_refs onResults_def updateDebug_def)
qed

text \<open>After the first frame of \<open>passingRun\<close> the timestamp is set and the eyes count as closed.\<close>

theorem noface_blink_state_witness:
  "eyesClosedSinceRef (deliveries defaultProps [(registered, passingRun ! 0)] (resetSession 0 mounted)) \<noteq> None
   \<and> eyesWereClosedRef (deliveries defaultProps [(registered, passingRun ! 0)] (resetSession 0 mounted))
   \<and> eyesClosedSinceRef (deliver defaultProps registered NoFace
        (deliveries defaultProps [(registered, passingRun ! 0)] (resetSession 0 mounted))) = None
   \<and> eyesWereClosedRef (deliver defaultProps registered NoFace
        (deliveries defaultProps [(registered, passingRun ! 0)] (resetSession 0 mounted)))"
  using noface_blink_state[of defaultProps registered
      "deliveries defaultProps [(registered, passingRun ! 0)] (resetSession 0 mounted)"
      "[(registered, passingRun ! 0)]" 0 mounted]
  by (simp add: run_defs)

text \<open>
  C5 as stated fails: a face lost in the middle of a closure leaves
  \<open>eyesWereClosedRef\<close> true with no timestamp.
\<close>

theorem noface_blink_state_counterexample:
  "eyesWereClosedRef (frames defaultProps
       [Face (Returns (1 / 10)) (Returns (1 / 10)) (Returns 1) 1000, NoFace] (resetSession 0 mounted))
   \<and> eyesClosedSinceRef (frames defaultProps
       [Face (Returns (1 / 10)) (Returns (1 / 10)) (Returns 1) 1000, NoFace] (resetSession 0 mounted)) = None"
  by (simp add: run_defs)

text \<open>
  C6 (as amended).  A frame without a face clears the two timers, counts the frame
  and records that no face is present; the smoothers' values, the counts and the
  flags stay as they are; the three smoothed values that the snapshot reports are
  set to 0.
\<close>

theorem noface_frame:
  "deliver p c NoFace s =
     s\<lparr>frameCountRef := frameCountRef s + 1, lastFacePresentRef := False,
       eyesClosedSinceRef := None, yawBeyondSinceRef := None,
       leftEAR := 0, rightEAR := 0, yawDev := 0\<rparr>
   \<and> onChangePayload (deliver p c NoFace s) =
       (livenessPassed s, blinkCount s, turnDetected s, turnedLeft s, turnedRight s,
        0, 0, 0, startedAtRef s)"
  by (simp add: deliver_def commit_def onResults_def updateDebug_def toFixed3_def Let_def
      onChangePayload_def)

text \<open>
  C6 as stated fails: after a frame with EAR 0.25 the snapshot reports 0.25, and
  after a following frame without a face it reports 0.
\<close>

theorem noface_frame_counterexample:
  "leftEAR (frames defaultProps [Face (Returns (1 / 4)) (Returns (1 / 4)) (Returns (1 / 2)) 1000]
       (resetSession 0 mounted)) = 1 / 4
   \<and> leftEAR (frameCallback defaultProps NoFace
       (frames defaultProps [Face (Returns (1 / 4)) (Returns (1 / 4)) (Returns (1 / 2)) 1000]
         (resetSession 0 mounted))) = 0
   \<and> onChangePayload (frameCallback defaultProps NoFace
       (frames defaultProps [Face (Returns (1 / 4)) (Returns (1 / 4)) (Returns (1 / 2)) 1000]
         (resetSession 0 mounted)))
     \<noteq> onChangePayload (frames defaultProps [Face (Returns (1 / 4)) (Returns (1 / 4)) (Returns (1 / 2)) 1000]
         (resetSession 0 mounted))"
  by (simp add: run_defs onChangePayload_def)

subsection \<open>The smoother\<close>

text \<open>
  C7.  The smoother returns the sample unchanged when there is no previous value,
  and \<open>alpha * sample + (1 - alpha) * previous\<close> otherwise; it is a total function
  of its three arguments, for every \<open>alpha\<close> and so for every \<open>alpha\<close> in \<open>(0, 1]\<close>.
\<close>

theorem ema_contract:
  "ema None sample alpha = sample \<and>
   ema (Some prev) sample alpha = alpha * sample + (1 - alpha) * prev"
  by (simp add: ema_def)

subsection \<open>Configuration of the blink detector\<close>

text \<open>
  C8 (as amended).  The minimum closure duration is the prop \<open>earCloseMinMs\<close>
  (default 120) and the detector compares the closure against the value the caller
  supplied; the refractory period is the constant 250 and the margin the constant
  0.03, whatever the props.
\<close>

theorem blink_configuration:
  assumes "eyesWereClosedRef s" and "openTh p \<le> e"
  shows "refractoryMs = 250 \<and> openTh p = earThreshold p + 3 / 100 \<and> closeTh p = earThreshold p
     \<and> earCloseMinMs defaultProps = 120
     \<and> blinkCountRef (fst (blinkSection p c e t s)) =
         (if earCloseMinMs p \<le> t - (case eyesClosedSinceRef s of None \<Rightarrow> t | Some t0 \<Rightarrow> t0)
             \<and> 250 \<le> t - lastBlinkAtRef s
          then blinkCountRef s + 1 else blinkCountRef s)"
  using assms
  by (simp add: blinkSection_exit refractoryMs_def openTh_def closeTh_def defaultProps_def)

text \<open>
  A closure of 250 ms that ends 300 ms after the last blink is counted when the
  caller asks for 200 ms and discarded when the caller asks for 300 ms.
\<close>

theorem blink_configuration_witness:
  "eyesWereClosedRef refractorySession \<and> openTh defaultProps \<le> 3 / 10
   \<and> blinkCountRef (fst (blinkSection (defaultProps\<lparr>earCloseMinMs := 300\<rparr>) registered (3 / 10) 1300
         refractorySession)) = 1
   \<and> blinkCountRef (fst (blinkSection (defaultProps\<lparr>earCloseMinMs := 200\<rparr>) registered (3 / 10) 1300
         refractorySession)) = 2"
  using blink_configuration[of refractorySession "defaultProps\<lparr>earCloseMinMs := 300\<rparr>" "3 / 10"
      registered 1300, unfolded refractoryMs_def]
    blink_configuration[of refractorySession "defaultProps\<lparr>earCloseMinMs := 200\<rparr>" "3 / 10"
      registered 1300, unfolded refractoryMs_def]
  by (simp add: refractorySession_def mounted_def defaultProps_def openTh_def closeTh_def)

text \<open>
  C8 as stated fails: no props give a margin other than 0.03, and no props, no
  instance and no frame make the detector count a closure that ends 249 ms after
  the last blink.
\<close>

theorem blink_configuration_counterexample:
  "\<not> (\<exists>p. openTh p - closeTh p \<noteq> 3 / 100)
   \<and> \<not> (\<exists>p c l r yw.
         blinkCount (deliver p c (Face (Returns l) (Returns r) yw 1249) refractorySession) \<noteq> 1)"
proof -
  have w: "eyesWereClosedRef refractorySession"
    by (simp add: refractorySession_def)
  have "blinkCount (deliver p c (Face (Returns l) (Returns r) yw 1249) refractorySession) = 1"
    for p c l r yw
    by (simp add: deliver_def commit_latch onResults_blink_fields blinkSection_exit[OF w]
        refractoryMs_def) (simp add: refractorySession_def)
  then show ?thesis
    by (simp add: openTh_def closeTh_def)
qed

subsection \<open>Extractors that throw\<close>

text \<open>
  C9 (as amended).  When an EAR extraction throws, the call is ended by the
  \<open>catch\<close> and has only counted the frame and recorded that a face is present: the
  timers are kept, not cleared, and the counts, the flags and the reported values
  are unchanged.  When only the yaw extraction throws, the blink section has run as
  for any other frame, and the turn detector's timer, smoother, direction and flags
  are unchanged.  The exception is logged and the call returns nothing.
\<close>

theorem extractor_throws:
  "deliver p c (Face Throws er yw t) s
     = s\<lparr>frameCountRef := frameCountRef s + 1, lastFacePresentRef := True\<rparr>
   \<and> deliver p c (Face (Returns l) Throws yw t) s
     = s\<lparr>frameCountRef := frameCountRef s + 1, lastFacePresentRef := True\<rparr>
   \<and> yawBeyondSinceRef (deliver p c (Face (Returns l) (Returns r) Throws t) s) = yawBeyondSinceRef s
   \<and> yawEMARef (deliver p c (Face (Returns l) (Returns r) Throws t) s) = yawEMARef s
   \<and> turnDetected (deliver p c (Face (Returns l) (Returns r) Throws t) s) = turnDetected s
   \<and> turnedLeft (deliver p c (Face (Returns l) (Returns r) Throws t) s) = turnedLeft s
   \<and> turnedRight (deliver p c (Face (Returns l) (Returns r) Throws t) s) = turnedRight s
   \<and> eyesWereClosedRef (deliver p c (Face (Returns l) (Returns r) Throws t) s)
       = eyesWereClosedRef (deliver p c (Face (Returns l) (Returns r) (Returns y) t) s)
   \<and> eyesClosedSinceRef (deliver p c (Face (Returns l) (Returns r) Throws t) s)
       = eyesClosedSinceRef (deliver p c (Face (Returns l) (Returns r) (Returns y) t) s)
   \<and> blinkCount (deliver p c (Face (Returns l) (Returns r) Throws t) s)
       = blinkCount (deliver p c (Face (Returns l) (Returns r) (Returns y) t) s)"
  by (simp add: deliver_def commit_refs commit_latch onResults_blink_fields)
     (simp add: commit_def onResults_def Let_def case_prod_beta blinkSection_untouched)

text \<open>
  C9 as stated fails: with both timers running since 1000 ms, a frame whose
  extractions throw keeps them, and a frame without a face clears them.
\<close>

theorem extractor_throws_counterexample:
  "eyesClosedSinceRef (frameCallback defaultProps (Face Throws Throws Throws 1100)
      (frames defaultProps (take 1 passingRun) (resetSession 0 mounted))) = Some 1000
   \<and> yawBeyondSinceRef (frameCallback defaultProps (Face Throws Throws Throws 1100)
      (frames defaultProps (take 1 passingRun) (resetSession 0 mounted))) = Some 1000
   \<and> eyesClosedSinceRef (frameCallback defaultProps NoFace
      (frames defaultProps (take 1 passingRun) (resetSession 0 mounted))) = None
   \<and> yawBeyondSinceRef (frameCallback defaultProps NoFace
      (frames defaultProps (take 1 passingRun) (resetSession 0 mounted))) = None"
  by (simp add: run_defs)

subsection \<open>The first blink and the refractory period\<close>

text \<open>
  C10.  \<open>resetSession\<close> sets \<open>lastBlinkAtRef\<close> to 0, not to an unset value.  A session
  whose first closure lasts from 100 ms to 240 ms (140 ms, at least the default
  \<open>earCloseMinMs\<close>) ends the closure and counts no blink, although no blink was
  counted before: 240 ms is less than the refractory period after the reading 0.
  The same closure from 1100 ms to 1240 ms is counted.
\<close>

theorem first_blink_refractory:
  "lastBlinkAtRef (resetSession d s0) = 0
   \<and> blinkCount (frames defaultProps
        [Face (Returns (1 / 10)) (Returns (1 / 10)) (Returns 0) 100,
         Face (Returns (1 / 2)) (Returns (1 / 2)) (Returns 0) 240] (resetSession d s0)) = 0
   \<and> eyesWereClosedRef (frames defaultProps
        [Face (Returns (1 / 10)) (Returns (1 / 10)) (Returns 0) 100] (resetSession d s0))
   \<and> \<not> eyesWereClosedRef (frames defaultProps
        [Face (Returns (1 / 10)) (Returns (1 / 10)) (Returns 0) 100,
         Face (Returns (1 / 2)) (Returns (1 / 2)) (Returns 0) 240] (resetSession d s0))
   \<and> earCloseMinMs defaultProps \<le> 240 - 100
   \<and> 240 - lastBlinkAtRef (resetSession d s0) < refractoryMs
   \<and> blinkCount (frames defaultProps
        [Face (Returns (1 / 10)) (Returns (1 / 10)) (Returns 0) 1100,
         Face (Returns (1 / 2)) (Returns (1 / 2)) (Returns 0) 1240] (resetSession d s0)) = 1"
  by (simp add: run_defs)

end
